theory Spec2Isabelle
  imports Main
begin

section \<open>Values of the host language\<close>

text \<open>
  The module under study is \<^verbatim>\<open>src/components/Editor/autocomplete.ts\<close>: the function
  \<^verbatim>\<open>constructAutocomplete\<close>, whose closure holds the date picker's element and flatpickr
  instance and installs a keydown handler and a text-change handler on the input, and the
  hook \<^verbatim>\<open>useAutocompleteInputProps\<close> with its \<^verbatim>\<open>onKeyDownCapture\<close> handler.

  The text before the caret is a JavaScript string: a sequence of UTF-16 code units, here
  natural numbers. Key names (\<^verbatim>\<open>e.key\<close>) and strategy ids are only ever compared with ASCII
  constants, so they are kept as \<^typ>\<open>string\<close>.
\<close>

type_synonym jstext = "nat list"

text \<open>
  What \<^verbatim>\<open>\s\<close> matches in a JavaScript regular expression without the \<^verbatim>\<open>u\<close> flag: the
  WhiteSpace and LineTerminator code units of ECMAScript.
\<close>

definition is_js_space :: "nat \<Rightarrow> bool" where
  "is_js_space c =
     (c = 9 \<or> c = 10 \<or> c = 11 \<or> c = 12 \<or> c = 13 \<or> c = 32 \<or> c = 160 \<or> c = 5760
      \<or> (8192 \<le> c \<and> c \<le> 8202) \<or> c = 8232 \<or> c = 8233 \<or> c = 8239 \<or> c = 8287
      \<or> c = 12288 \<or> c = 65279)"

text \<open>The only exception the module can raise by itself: a property read or a call on
  \<^verbatim>\<open>null\<close> or \<^verbatim>\<open>undefined\<close>.\<close>

datatype js_error = TypeError

datatype outcome = Returned | Threw js_error

section \<open>Dates as moment sees them\<close>

text \<open>
  A moment wraps a point of local time and is read and moved through its calendar fields.
  The month is counted from 0 as moment does; \<open>d_ms\<close> is the time of day in milliseconds.
\<close>

record mdate =
  d_year :: int
  d_month :: nat
  d_day :: nat
  d_ms :: nat

definition is_leap :: "int \<Rightarrow> bool" where
  "is_leap y = (y mod 4 = 0 \<and> (y mod 100 \<noteq> 0 \<or> y mod 400 = 0))"

definition days_in_month :: "int \<Rightarrow> nat \<Rightarrow> nat" where
  "days_in_month y m =
     (if m = 1 then (if is_leap y then 29 else 28)
      else if m = 3 \<or> m = 5 \<or> m = 8 \<or> m = 10 then 30 else 31)"

text \<open>A day of the calendar.\<close>

definition calendar_date :: "mdate \<Rightarrow> bool" where
  "calendar_date d =
     (d_month d < 12 \<and> 1 \<le> d_day d \<and> d_day d \<le> days_in_month (d_year d) (d_month d))"

text \<open>
  The calendar below has no first and no last year, while a \<^verbatim>\<open>Date\<close> of the host holds the days
  from 20 April of the year -271821 to 13 September of the year 275760 only. A valid date is
  a day of the calendar in a year between these two: every such day is a \<^verbatim>\<open>Date\<close>, and so are
  the days up to a month before and after it.
\<close>

definition valid_date :: "mdate \<Rightarrow> bool" where
  "valid_date d = (calendar_date d \<and> - 271820 \<le> d_year d \<and> d_year d \<le> 275759)"

text \<open>The days before 1 March of year \<open>y\<close> (of the proleptic Gregorian calendar), up to a
  constant.\<close>

definition year_days :: "int \<Rightarrow> int" where
  "year_days y = 365 * y + y div 4 - y div 100 + y div 400"

text \<open>The number of the day, counted from 1 January 1970 (a Thursday).\<close>

definition day_number :: "mdate \<Rightarrow> int" where
  "day_number d =
     (let m1 = int (d_month d) + 1;
          y = d_year d - (if m1 \<le> 2 then 1 else 0);
          mp = (if 2 < m1 then m1 - 3 else m1 + 9);
          doy = (153 * mp + 2) div 5 + int (d_day d) - 1
      in year_days y + doy - 719468)"

text \<open>\<^verbatim>\<open>Date.prototype.getDay\<close>: 0 is Sunday.\<close>

definition js_day :: "mdate \<Rightarrow> nat" where
  "js_day d = nat ((day_number d + 4) mod 7)"

text \<open>
  \<^verbatim>\<open>moment.weekday()\<close> is the day of the week counted from the locale's first day of the week
  \<open>dow\<close> (0 for a week that starts on Sunday, 1 for Monday).
\<close>

definition weekday :: "nat \<Rightarrow> mdate \<Rightarrow> nat" where
  "weekday dow d = (js_day d + 7 - dow) mod 7"

text \<open>
  The calendar day after and the calendar day before, at the same time of the clock; and the
  same, \<open>n\<close> times over.
\<close>

definition next_day :: "mdate \<Rightarrow> mdate" where
  "next_day d =
     (if d_day d < days_in_month (d_year d) (d_month d) then d\<lparr>d_day := d_day d + 1\<rparr>
      else if d_month d < 11 then d\<lparr>d_month := d_month d + 1, d_day := 1\<rparr>
      else d\<lparr>d_year := d_year d + 1, d_month := 0, d_day := 1\<rparr>)"

definition prev_day :: "mdate \<Rightarrow> mdate" where
  "prev_day d =
     (if 1 < d_day d then d\<lparr>d_day := d_day d - 1\<rparr>
      else if 0 < d_month d
        then d\<lparr>d_month := d_month d - 1, d_day := days_in_month (d_year d) (d_month d - 1)\<rparr>
      else d\<lparr>d_year := d_year d - 1, d_month := 11, d_day := 31\<rparr>)"

definition add_days :: "nat \<Rightarrow> mdate \<Rightarrow> mdate" where
  "add_days n d = (next_day ^^ n) d"

definition subtract_days :: "nat \<Rightarrow> mdate \<Rightarrow> mdate" where
  "subtract_days n d = (prev_day ^^ n) d"

text \<open>
  What the host decides and this module does not. \<open>week_start\<close> is the first day of the week
  of moment's locale (0 for Sunday, 1 for Monday). \<open>local_time\<close> is the time of day at which
  the host's time zone places a time of the clock on a calendar day: that time itself where
  it exists on that day, a later one of the same day where daylight saving skips it.
  \<open>kept_time\<close> is the time of day of the \<^verbatim>\<open>Date\<close> flatpickr keeps for a date given to
  \<^verbatim>\<open>setDate\<close>; it resets the milliseconds. Nothing is assumed of the two functions. A time
  zone that skips a whole calendar day is not covered.
\<close>

record host =
  week_start :: nat
  local_time :: "mdate \<Rightarrow> nat"
  kept_time :: "mdate \<Rightarrow> nat"

text \<open>
  \<^verbatim>\<open>add(n, 'day')\<close> and \<^verbatim>\<open>subtract(n, 'day')\<close> of moment: the calendar day \<open>n\<close> days on or back, at
  the time of day the host places the clock's time there.
\<close>

definition moment_add_days :: "host \<Rightarrow> nat \<Rightarrow> mdate \<Rightarrow> mdate" where
  "moment_add_days h n d = (add_days n d)\<lparr>d_ms := local_time h (add_days n d)\<rparr>"

definition moment_subtract_days :: "host \<Rightarrow> nat \<Rightarrow> mdate \<Rightarrow> mdate" where
  "moment_subtract_days h n d = (subtract_days n d)\<lparr>d_ms := local_time h (subtract_days n d)\<rparr>"

text \<open>\<^verbatim>\<open>add(1, 'week')\<close> and \<^verbatim>\<open>subtract(1, 'week')\<close>.\<close>

definition add_week :: "host \<Rightarrow> mdate \<Rightarrow> mdate" where
  "add_week h d = moment_add_days h 7 d"

definition subtract_week :: "host \<Rightarrow> mdate \<Rightarrow> mdate" where
  "subtract_week h d = moment_subtract_days h 7 d"

text \<open>Two dates on the same calendar day.\<close>

definition same_day :: "mdate \<Rightarrow> mdate \<Rightarrow> bool" where
  "same_day d d' = (d_year d = d_year d' \<and> d_month d = d_month d' \<and> d_day d = d_day d')"

text \<open>
  Modelled from the spec: \<^verbatim>\<open>toNextMonth\<close> and \<^verbatim>\<open>toPreviousMonth\<close> are imported from
  \<^verbatim>\<open>./datepicker\<close>, which is not among the sources. The specification says that at the
  week's edge the right arrow "moves to the first day of the next calendar month" and that
  the left arrow wraps "to the previous calendar month". For the previous month the
  specification names no day; the last one is taken here, and no statement below depends
  on that choice.
\<close>

definition toNextMonth :: "mdate \<Rightarrow> mdate" where
  "toNextMonth d =
     (if d_month d < 11 then d\<lparr>d_month := d_month d + 1, d_day := 1\<rparr>
      else d\<lparr>d_year := d_year d + 1, d_month := 0, d_day := 1\<rparr>)"

definition toPreviousMonth :: "mdate \<Rightarrow> mdate" where
  "toPreviousMonth d =
     (if 0 < d_month d
        then d\<lparr>d_month := d_month d - 1, d_day := days_in_month (d_year d) (d_month d - 1)\<rparr>
      else d\<lparr>d_year := d_year d - 1, d_month := 11, d_day := 31\<rparr>)"

section \<open>The state of one \<^verbatim>\<open>constructAutocomplete\<close> closure\<close>

text \<open>
  The flatpickr instance, as far as the module reads and writes it: \<^verbatim>\<open>selectedDates\<close>, set by
  \<^verbatim>\<open>setDate\<close>, and whether \<^verbatim>\<open>destroy()\<close> has been called on it.
\<close>

record flatpickr =
  selectedDates :: "mdate list"
  destroyed :: bool

text \<open>The picker's \<^verbatim>\<open>div\<close>: its position and whether it is still in the document.\<close>

record picker_el =
  style_left :: int
  style_top :: int
  attached :: bool

text \<open>
  A search result of the dropdown. \<open>strategy_id\<close> is \<^verbatim>\<open>searchResult.strategy.props.id\<close>, an
  optional field of the library's \<^verbatim>\<open>StrategyProps\<close>; \<open>candidate\<close> stands for the rest.
\<close>

record search_result =
  strategy_id :: "string option"
  candidate :: nat

record dropdown =
  shown :: bool
  activeItem :: "search_result option"

text \<open>
  The closure's variables (\<^verbatim>\<open>datePickerEl\<close>, \<^verbatim>\<open>datePickerInstance\<close>), its constants
  (\<^verbatim>\<open>excludeDatePicker\<close>, \<^verbatim>\<open>dateTrigger\<close>), the shared \<^verbatim>\<open>isAutocompleteVisibleRef\<close>, the
  Textcomplete dropdown, the listeners the closure has installed, the number of
  \<^verbatim>\<open>setTimeout\<close> callbacks not yet run, and whether \<^verbatim>\<open>autocomplete.destroy()\<close> and
  \<^verbatim>\<open>editor.destroy()\<close> have run.
\<close>

record ac_state =
  excludeDatePicker :: bool
  dateTrigger :: jstext
  datePickerEl :: "picker_el option"
  datePickerInstance :: "flatpickr option"
  isAutocompleteVisibleRef :: bool
  dropdown :: dropdown
  keydownListener :: bool
  changeListener :: bool
  pendingTimeouts :: nat
  autocompleteDestroyed :: bool
  editorDestroyed :: bool

text \<open>The calls a handler makes on its collaborators, in the order it makes them.\<close>

datatype effect =
    PreventDefault
  | ApplyDate mdate
  | ApplySearchResult search_result
  | ReplaceSelection string
  | FlatpickrSetDate mdate
  | FlatpickrDestroy
  | ElementRemove
  | SetTimeout
  | CreateDiv
  | ConstructDatePicker
  | EnsureDatePickerIsOnScreen
  | RemoveEventListener
  | AutocompleteDestroy
  | EditorDestroy

text \<open>What a handler does: how it ends, the state it leaves, the calls it made.\<close>

type_synonym step = "outcome \<times> ac_state \<times> effect list"

text \<open>\<^verbatim>\<open>editor.getCursorOffset()\<close>; \<^verbatim>\<open>position.left || 0\<close> reads an absent coordinate as 0.\<close>

record cursor_offset =
  pos_left :: "int option"
  pos_top :: "int option"

definition or_zero :: "int option \<Rightarrow> int" where
  "or_zero v = (case v of None \<Rightarrow> 0 | Some x \<Rightarrow> x)"

section \<open>\<^verbatim>\<open>constructAutocomplete\<close>\<close>

subsection \<open>The indices and the dropdown's options\<close>

text \<open>A link suggestion of the metadata cache; \<open>ls_file\<close> is its \<^verbatim>\<open>file\<close>, which may be absent.\<close>

record tfile =
  basename :: string

record link_suggestion =
  ls_file :: "tfile option"
  ls_path :: string
  ls_alias :: "string option"

text \<open>\<^verbatim>\<open>getLinkSuggestions().filter((suggestion) => !!suggestion.file)\<close>: an object is truthy,
  \<^verbatim>\<open>null\<close> and \<^verbatim>\<open>undefined\<close> are not.\<close>

definition linkSuggestions :: "link_suggestion list \<Rightarrow> link_suggestion list" where
  "linkSuggestions raw = filter (\<lambda>suggestion. ls_file suggestion \<noteq> None) raw"

text \<open>A Fuse index: the collection it was built over and the keys it searches.\<close>

record 'a fuse =
  docs :: "'a list"
  fuse_keys :: "string list"

definition fileSearch :: "link_suggestion list \<Rightarrow> link_suggestion fuse" where
  "fileSearch raw = \<lparr>docs = linkSuggestions raw, fuse_keys = [''file.basename'', ''alias'']\<rparr>"

text \<open>The \<^verbatim>\<open>dropdown\<close> option handed to \<^verbatim>\<open>new Textcomplete(editor, configs, ...)\<close>.\<close>

record dropdown_options =
  maxCount :: nat
  rotate :: bool

definition dropdownOptions :: dropdown_options where
  "dropdownOptions = \<lparr>maxCount = 96, rotate = True\<rparr>"

text \<open>
  The library's dropdown (\<^verbatim>\<open>@textcomplete/core\<close>) renders the first \<^verbatim>\<open>maxCount\<close> of the search
  results it is given: its items are \<^verbatim>\<open>searchResults.slice(0, maxCount)\<close>.
\<close>

definition dropdownItems :: "dropdown_options \<Rightarrow> search_result list \<Rightarrow> search_result list" where
  "dropdownItems opts searchResults = take (maxCount opts) searchResults"

subsection \<open>The closure as it is built\<close>

text \<open>
  \<open>visible\<close> is what \<^verbatim>\<open>isAutocompleteVisibleRef.current\<close> holds when the closure is built. The
  keydown listener and the change handler are installed only under
  \<^verbatim>\<open>if (!excludeDatePicker)\<close>.
\<close>

definition constructAutocomplete :: "bool \<Rightarrow> jstext \<Rightarrow> bool \<Rightarrow> ac_state" where
  "constructAutocomplete exclude trigger visible =
     \<lparr>excludeDatePicker = exclude, dateTrigger = trigger,
      datePickerEl = None, datePickerInstance = None,
      isAutocompleteVisibleRef = visible,
      dropdown = \<lparr>shown = False, activeItem = None\<rparr>,
      keydownListener = \<not> exclude, changeListener = \<not> exclude,
      pendingTimeouts = 0, autocompleteDestroyed = False, editorDestroyed = False\<rparr>"

text \<open>\<^verbatim>\<open>autocomplete.on('show', ...)\<close> and \<^verbatim>\<open>autocomplete.on('hidden', ...)\<close>; \<open>item\<close> is the item
  the dropdown activates when it shows.\<close>

definition onShow :: "search_result option \<Rightarrow> ac_state \<Rightarrow> ac_state" where
  "onShow item st =
     st\<lparr>dropdown := \<lparr>shown = True, activeItem = item\<rparr>, isAutocompleteVisibleRef := True\<rparr>"

definition onHidden :: "ac_state \<Rightarrow> ac_state" where
  "onHidden st =
     st\<lparr>dropdown := \<lparr>shown = False, activeItem = None\<rparr>, isAutocompleteVisibleRef := False\<rparr>"

subsection \<open>\<^verbatim>\<open>destroyDatePicker\<close>\<close>

text \<open>
  \<^verbatim>\<open>
  if (!autocomplete.isShown()) isAutocompleteVisibleRef.current = false;
  datePickerInstance.destroy();
  datePickerEl.remove();
  setTimeout(() => (datePickerEl = null));
  \<close>
  Neither reference is tested: a call on \<^verbatim>\<open>null\<close> throws, after what came before it.
\<close>

definition destroyDatePicker :: "ac_state \<Rightarrow> step" where
  "destroyDatePicker st =
     (let st1 = (if \<not> shown (dropdown st) then st\<lparr>isAutocompleteVisibleRef := False\<rparr> else st)
      in case datePickerInstance st1 of
           None \<Rightarrow> (Threw TypeError, st1, [])
         | Some inst \<Rightarrow>
             (let st2 = st1\<lparr>datePickerInstance := Some (inst\<lparr>destroyed := True\<rparr>)\<rparr>
              in case datePickerEl st2 of
                   None \<Rightarrow> (Threw TypeError, st2, [FlatpickrDestroy])
                 | Some el \<Rightarrow>
                     (Returned,
                      st2\<lparr>datePickerEl := Some (el\<lparr>attached := False\<rparr>),
                          pendingTimeouts := Suc (pendingTimeouts st2)\<rparr>,
                      [FlatpickrDestroy, ElementRemove, SetTimeout])))"

text \<open>The callback of that \<^verbatim>\<open>setTimeout\<close>, when it runs.\<close>

definition timeoutFires :: "ac_state \<Rightarrow> ac_state" where
  "timeoutFires st =
     (if 0 < pendingTimeouts st
        then st\<lparr>datePickerEl := None, pendingTimeouts := pendingTimeouts st - 1\<rparr>
      else st)"

subsection \<open>\<^verbatim>\<open>keydownHandler\<close>\<close>

text \<open>
  The first block of the handler. It tests \<^verbatim>\<open>autocomplete.isShown\<close>, the method itself and not
  its result, which is always truthy; so the block is entered for every \<^verbatim>\<open>#\<close> and \<^verbatim>\<open>^\<close>. The
  result is \<open>None\<close> when the block falls through to the rest of the handler.
\<close>

definition anchorShortcut :: "string \<Rightarrow> ac_state \<Rightarrow> step option" where
  "anchorShortcut key st =
     (if True \<and> (key = ''#'' \<or> key = ''^'') then
        (case activeItem (dropdown st) of
           None \<Rightarrow> None
         | Some searchResult \<Rightarrow>
             (case strategy_id searchResult of
                None \<Rightarrow> Some (Threw TypeError, st, [])
              | Some sid \<Rightarrow>
                  if take 4 sid = ''link'' then
                    Some (Returned, st,
                          [PreventDefault, ApplySearchResult searchResult,
                           ReplaceSelection (if key = ''^'' then ''#^'' else ''#'')])
                  else None))
      else None)"

text \<open>
  \<^verbatim>\<open>datePickerInstance.setDate(date, false)\<close> after \<^verbatim>\<open>e.preventDefault()\<close>. The instance keeps a
  \<^verbatim>\<open>Date\<close> of the same day, at the time of day that is flatpickr's to choose; on a destroyed
  instance \<^verbatim>\<open>setDate\<close> throws.
\<close>

definition setDate :: "host \<Rightarrow> mdate \<Rightarrow> flatpickr \<Rightarrow> ac_state \<Rightarrow> step" where
  "setDate h date inst st =
     (if destroyed inst then (Threw TypeError, st, [PreventDefault])
      else
        (Returned,
         st\<lparr>datePickerInstance := Some (inst\<lparr>selectedDates := [date\<lparr>d_ms := kept_time h date\<rparr>]\<rparr>)\<rparr>,
         [PreventDefault, FlatpickrSetDate date]))"

text \<open>\<^verbatim>\<open>selectedDates[0] || new Date()\<close>: a \<^verbatim>\<open>Date\<close> is truthy, so the first selected date when
  there is one.\<close>

definition first_or :: "mdate \<Rightarrow> mdate list \<Rightarrow> mdate" where
  "first_or now dates = (case dates of [] \<Rightarrow> now | date # _ \<Rightarrow> date)"

text \<open>
  The rest of the handler, from \<^verbatim>\<open>if (!datePickerEl) return\<close> on. \<open>now\<close> is \<^verbatim>\<open>new Date()\<close>.
\<close>

definition datePickerKeys :: "host \<Rightarrow> mdate \<Rightarrow> string \<Rightarrow> ac_state \<Rightarrow> step" where
  "datePickerKeys h now key st =
     (case datePickerEl st of
        None \<Rightarrow> (Returned, st, [])
      | Some el \<Rightarrow>
          if key = ''Enter'' then
            (case datePickerInstance st of
               None \<Rightarrow> (Threw TypeError, st, [PreventDefault])
             | Some inst \<Rightarrow>
                 (case destroyDatePicker st of
                    (oc, st', es) \<Rightarrow>
                      (oc, st', [PreventDefault, ApplyDate (first_or now (selectedDates inst))] @ es)))
          else if key = ''Escape'' then
            (case destroyDatePicker st of (oc, st', es) \<Rightarrow> (oc, st', PreventDefault # es))
          else
            (case datePickerInstance st of
               None \<Rightarrow> (Threw TypeError, st, [])
             | Some inst \<Rightarrow>
                 (let currentDate = first_or now (selectedDates inst) in
                  if key = ''ArrowRight'' then
                    (if weekday (week_start h) currentDate = 6
                       then setDate h (toNextMonth currentDate) inst st
                     else setDate h (moment_add_days h 1 currentDate) inst st)
                  else if key = ''ArrowLeft'' then
                    (if weekday (week_start h) currentDate = 0
                       then setDate h (toPreviousMonth currentDate) inst st
                     else setDate h (moment_subtract_days h 1 currentDate) inst st)
                  else if key = ''ArrowUp'' then setDate h (subtract_week h currentDate) inst st
                  else if key = ''ArrowDown'' then setDate h (add_week h currentDate) inst st
                  else (Returned, st, []))))"

definition keydownHandler :: "host \<Rightarrow> mdate \<Rightarrow> string \<Rightarrow> ac_state \<Rightarrow> step" where
  "keydownHandler h now key st =
     (case anchorShortcut key st of
        Some r \<Rightarrow> r
      | None \<Rightarrow> datePickerKeys h now key st)"

text \<open>A keydown event on the input reaches the handler only while it is installed.\<close>

definition keydownEvent :: "host \<Rightarrow> mdate \<Rightarrow> string \<Rightarrow> ac_state \<Rightarrow> step" where
  "keydownEvent h now key st =
     (if keydownListener st then keydownHandler h now key st else (Returned, st, []))"

subsection \<open>The change handler\<close>

text \<open>
  \<^verbatim>\<open>new RegExp(`(?:^|\\s)${escapeRegExpStr(dateTrigger)}$`)\<close>: the escaped trigger matches itself,
  character by character. Without flags, \<^verbatim>\<open>^\<close> holds at position 0 only and \<^verbatim>\<open>$\<close> at the end
  only. \<open>matchAt\<close> is a match that starts at position \<open>p\<close>, by the first or by the second
  alternative; \<^verbatim>\<open>test\<close> tries every start position.
\<close>

definition matchAt :: "jstext \<Rightarrow> jstext \<Rightarrow> nat \<Rightarrow> bool" where
  "matchAt trigger s p =
     ((p = 0 \<and> drop p s = trigger)
      \<or> (p < length s \<and> is_js_space (s ! p) \<and> drop (Suc p) s = trigger))"

definition dateTriggerRegex_test :: "jstext \<Rightarrow> jstext \<Rightarrow> bool" where
  "dateTriggerRegex_test trigger s = list_ex (matchAt trigger s) [0 ..< Suc (length s)]"

text \<open>\<^verbatim>\<open>editor.on('change', ...)\<close>. An empty \<^verbatim>\<open>beforeCursor\<close> is falsy.\<close>

definition onChange :: "cursor_offset \<Rightarrow> jstext \<Rightarrow> ac_state \<Rightarrow> step" where
  "onChange position beforeCursor st =
     (if beforeCursor \<noteq> [] \<and> dateTriggerRegex_test (dateTrigger st) beforeCursor then
        (case datePickerEl st of
           Some el \<Rightarrow>
             (Returned,
              st\<lparr>datePickerEl :=
                   Some (el\<lparr>style_left := or_zero (pos_left position),
                            style_top := or_zero (pos_top position)\<rparr>)\<rparr>,
              [EnsureDatePickerIsOnScreen])
         | None \<Rightarrow>
             (Returned,
              st\<lparr>datePickerEl :=
                   Some \<lparr>style_left = or_zero (pos_left position),
                         style_top = or_zero (pos_top position), attached = True\<rparr>\<rparr>,
              [CreateDiv, ConstructDatePicker]))
      else
        (case datePickerEl st of
           Some el \<Rightarrow> destroyDatePicker st
         | None \<Rightarrow> (Returned, st, [])))"

text \<open>The callback \<^verbatim>\<open>cb\<close> given to \<^verbatim>\<open>constructDatePicker\<close>, when it is called with the picker.\<close>

definition pickerCallback :: "flatpickr \<Rightarrow> ac_state \<Rightarrow> step" where
  "pickerCallback picker st =
     (Returned, st\<lparr>datePickerInstance := Some picker, isAutocompleteVisibleRef := True\<rparr>,
      [EnsureDatePickerIsOnScreen])"

text \<open>The editor emits a change only while it lives and the handler is installed.\<close>

definition changeEvent :: "cursor_offset \<Rightarrow> jstext \<Rightarrow> ac_state \<Rightarrow> step" where
  "changeEvent position beforeCursor st =
     (if changeListener st \<and> \<not> editorDestroyed st then onChange position beforeCursor st
      else (Returned, st, []))"

subsection \<open>The function \<^verbatim>\<open>constructAutocomplete\<close> returns\<close>

text \<open>
  \<open>inputPresent\<close> is whether \<^verbatim>\<open>inputRef.current\<close> is still set. An exception of
  \<^verbatim>\<open>destroyDatePicker\<close> ends the function before \<^verbatim>\<open>autocomplete.destroy()\<close>.
\<close>

definition teardown :: "bool \<Rightarrow> ac_state \<Rightarrow> step" where
  "teardown inputPresent st =
     (let unlisten = (\<not> excludeDatePicker st \<and> inputPresent);
          st1 = (if unlisten then st\<lparr>keydownListener := False\<rparr> else st);
          es1 = (if unlisten then [RemoveEventListener] else [])
      in case (case datePickerEl st1 of
                 Some el \<Rightarrow> destroyDatePicker st1
               | None \<Rightarrow> (Returned, st1, [])) of
           (Threw err, st2, es2) \<Rightarrow> (Threw err, st2, es1 @ es2)
         | (Returned, st2, es2) \<Rightarrow>
             (Returned, st2\<lparr>autocompleteDestroyed := True, editorDestroyed := True\<rparr>,
              es1 @ es2 @ [AutocompleteDestroy, EditorDestroy]))"

section \<open>\<^verbatim>\<open>useAutocompleteInputProps\<close>: the capture handler\<close>

text \<open>
  The three external handlers are optional properties. A handler is given the event (here
  its key) and answers whether it handled it (\<^verbatim>\<open>boolean | void\<close>, read for its truthiness).
\<close>

record handlers =
  onEnter :: "(string \<Rightarrow> bool) option"
  onEscape :: "(string \<Rightarrow> bool) option"
  onKeyDown :: "(string \<Rightarrow> bool) option"

datatype handler_call = CallOnKeyDown | CallOnEnter | CallOnEscape

text \<open>
  \<open>imeBlocks\<close> is \<^verbatim>\<open>getShouldIMEBlockAction()\<close>, \<open>visible\<close> is
  \<^verbatim>\<open>isAutocompleteVisibleRef.current\<close>. The result lists the handlers called, in order.
  \<^verbatim>\<open>onKeyDown(e)\<close> is called without a test, \<^verbatim>\<open>onEnter\<close> and \<^verbatim>\<open>onEscape\<close> behind \<^verbatim>\<open>&&\<close>.
\<close>

definition onKeyDownCapture ::
  "handlers \<Rightarrow> bool \<Rightarrow> bool \<Rightarrow> string \<Rightarrow> outcome \<times> handler_call list" where
  "onKeyDownCapture props imeBlocks visible key =
     (if imeBlocks \<or> visible then (Returned, [])
      else case onKeyDown props of
             None \<Rightarrow> (Threw TypeError, [])
           | Some keyDown \<Rightarrow>
               if keyDown key then (Returned, [CallOnKeyDown])
               else if key = ''Enter'' then
                 (case onEnter props of
                    None \<Rightarrow> (Returned, [CallOnKeyDown])
                  | Some enter \<Rightarrow> (Returned, [CallOnKeyDown, CallOnEnter]))
               else if key = ''Escape'' then
                 (case onEscape props of
                    None \<Rightarrow> (Returned, [CallOnKeyDown])
                  | Some escape \<Rightarrow> (Returned, [CallOnKeyDown, CallOnEscape]))
               else (Returned, [CallOnKeyDown]))"


section \<open>What the specification's words mean\<close>

text \<open>
  The specification's condition for the date trigger, in its own words: the text before the
  caret ends with the trigger, and the trigger is preceded by the start of the text or by a
  whitespace character. It is compared below with what the regular expression tests.
\<close>

definition atWordBoundary :: "jstext \<Rightarrow> jstext \<Rightarrow> bool" where
  "atWordBoundary trigger s =
     (s = trigger \<or> (\<exists>before c. s = before @ c # trigger \<and> is_js_space c))"

text \<open>Calendar months, counted through the years: the next month has the next index.\<close>

definition month_index :: "mdate \<Rightarrow> int" where
  "month_index d = 12 * d_year d + int (d_month d)"

text \<open>
  The picker is visible: its element is in the document and its flatpickr instance has
  been delivered and not destroyed. (The callback that stores the instance is also the one
  that sets \<^verbatim>\<open>isAutocompleteVisibleRef.current\<close>.)
\<close>

definition pickerVisible :: "ac_state \<Rightarrow> picker_el \<Rightarrow> flatpickr \<Rightarrow> bool" where
  "pickerVisible st el inst =
     (datePickerEl st = Some el \<and> attached el \<and> datePickerInstance st = Some inst
      \<and> \<not> destroyed inst)"

section \<open>A worked example\<close>

text \<open>
  The scenario of the specification: the date trigger is \<^verbatim>\<open>@\<close>, the date picker is not
  excluded, and the text before the caret becomes \<^verbatim>\<open>Meeting @\<close>. \<open>js\<close> gives the code units
  of an ASCII literal. \<open>example_created\<close> is the closure after that change, its picker element
  created and the flatpickr instance not yet delivered; \<open>example_visible\<close> is the closure once
  the callback has delivered the instance. The day is Saturday, 7 November 2026, 9:30, in a
  locale whose week starts on Sunday.
\<close>

definition js :: "string \<Rightarrow> jstext" where
  "js s = map of_char s"

definition example_initial :: ac_state where
  "example_initial = constructAutocomplete False (js ''@'') False"

definition example_position :: cursor_offset where
  "example_position = \<lparr>pos_left = Some 120, pos_top = None\<rparr>"

definition example_el :: picker_el where
  "example_el = \<lparr>style_left = 120, style_top = 0, attached = True\<rparr>"

definition example_created :: ac_state where
  "example_created = fst (snd (onChange example_position (js ''Meeting @'') example_initial))"

definition example_picker :: flatpickr where
  "example_picker = \<lparr>selectedDates = [], destroyed = False\<rparr>"

definition example_visible :: ac_state where
  "example_visible = fst (snd (pickerCallback example_picker example_created))"

definition example_now :: mdate where
  "example_now = \<lparr>d_year = 2026, d_month = 10, d_day = 7, d_ms = 34200000\<rparr>"

definition example_host :: host where
  "example_host =
     \<lparr>week_start = 0, local_time = d_ms, kept_time = (\<lambda>d. d_ms d - d_ms d mod 1000)\<rparr>"

text \<open>A dropdown that shows a file-link candidate, with and without the date picker; and
  the properties of an input that passes \<^verbatim>\<open>onEnter\<close> only.\<close>

definition example_link_item :: search_result where
  "example_link_item = \<lparr>strategy_id = Some ''link-file'', candidate = 3\<rparr>"

definition example_shown :: ac_state where
  "example_shown = onShow (Some example_link_item) example_initial"

definition example_excluded :: ac_state where
  "example_excluded = onShow (Some example_link_item) (constructAutocomplete True (js ''@'') False)"

definition example_props :: handlers where
  "example_props = \<lparr>onEnter = Some (\<lambda>e. True), onEscape = None, onKeyDown = None\<rparr>"

section \<open>Lemmas on dates\<close>

lemma div_step:
  fixes y n :: int
  assumes "0 < n"
  shows "y div n - (y - 1) div n = (if y mod n = 0 then 1 else 0)"
proof (cases "y mod n = 0")
  case True
  have "y = n * (y div n)" using True by (metis mult_div_mod_eq add.right_neutral)
  then have "y - 1 = n * (y div n - 1) + (n - 1)" by (simp add: algebra_simps)
  then have "(y - 1) div n = y div n - 1"
    using assms by (intro int_div_pos_eq[where r = "n - 1"]) auto
  with True show ?thesis by simp
next
  case False
  have "0 \<le> y mod n" "y mod n < n" using assms by simp_all
  then have r: "0 \<le> y mod n - 1" "y mod n - 1 < n" using False by linarith+
  have "y - 1 = n * (y div n) + (y mod n - 1)" by simp
  then have "(y - 1) div n = y div n"
    using r by (rule int_div_pos_eq)
  with False show ?thesis by simp
qed

lemma mod_400_100: "(y::int) mod 400 = 0 \<Longrightarrow> y mod 100 = 0"
proof -
  assume a: "y mod 400 = 0"
  have "(100::int) dvd 400" by (rule dvdI[where k = 4]) simp
  then have "y mod 400 mod 100 = y mod 100" by (rule mod_mod_cancel)
  with a show ?thesis by simp
qed

lemma mod_100_4: "(y::int) mod 100 = 0 \<Longrightarrow> y mod 4 = 0"
proof -
  assume a: "y mod 100 = 0"
  have "(4::int) dvd 100" by (rule dvdI[where k = 25]) simp
  then have "y mod 100 mod 4 = y mod 4" by (rule mod_mod_cancel)
  with a show ?thesis by simp
qed

lemma ring_shuffle:
  "365 * y + a - b + c - (365 * (y - 1) + a' - b' + c') = 365 + (a - a') - (b - b') + (c - c')"
  for y a b c a' b' c' :: int
  by (simp add: algebra_simps)

text \<open>A year has 366 days when it is a leap year and 365 otherwise.\<close>

lemma year_step: "year_days y - year_days (y - 1) = (if is_leap y then 366 else 365)"
proof -
  have d4: "y div 4 - (y - 1) div 4 = (if y mod 4 = 0 then 1 else 0)" by (rule div_step) simp
  have d100: "y div 100 - (y - 1) div 100 = (if y mod 100 = 0 then 1 else 0)" by (rule div_step) simp
  have d400: "y div 400 - (y - 1) div 400 = (if y mod 400 = 0 then 1 else 0)" by (rule div_step) simp
  have e: "year_days y - year_days (y - 1) =
      365 + (y div 4 - (y - 1) div 4) - (y div 100 - (y - 1) div 100) + (y div 400 - (y - 1) div 400)"
    unfolding year_days_def by (rule ring_shuffle)
  show ?thesis
  proof (cases "y mod 4 = 0")
    case False
    then have n100: "y mod 100 \<noteq> 0" using mod_100_4[of y] by auto
    then have "y mod 400 \<noteq> 0" using mod_400_100[of y] by auto
    with False n100 show ?thesis unfolding e d4 d100 d400 is_leap_def by simp
  next
    case t4: True
    show ?thesis
    proof (cases "y mod 100 = 0")
      case False
      then have "y mod 400 \<noteq> 0" using mod_400_100[of y] by auto
      with False t4 show ?thesis unfolding e d4 d100 d400 is_leap_def by simp
    next
      case True
      with t4 show ?thesis unfolding e d4 d100 d400 is_leap_def by simp
    qed
  qed
qed

lemma month_cases:
  assumes "m < (12::nat)"
  obtains "m = 0" | "m = 1" | "m = 2" | "m = 3" | "m = 4" | "m = 5" | "m = 6" | "m = 7" | "m = 8"
    | "m = 9" | "m = 10" | "m = 11"
proof -
  have "m = 0 \<or> m = 1 \<or> m = 2 \<or> m = 3 \<or> m = 4 \<or> m = 5 \<or> m = 6 \<or> m = 7 \<or> m = 8
     \<or> m = 9 \<or> m = 10 \<or> m = 11"
    using assms by (simp add: eval_nat_numeral less_Suc_eq)
  then show ?thesis using that by blast
qed

lemma days_in_month_ge: "28 \<le> days_in_month y m"
  by (simp add: days_in_month_def)

lemma days_in_month_december: "days_in_month y 11 = 31"
  by (simp add: days_in_month_def)

lemma calendar_next_day: "calendar_date d \<Longrightarrow> calendar_date (next_day d)"
proof -
  assume v: "calendar_date d"
  then have m: "d_month d < 12" and lo: "1 \<le> d_day d"
    by (simp_all add: calendar_date_def)
  consider (inner) "d_day d < days_in_month (d_year d) (d_month d)"
    | (month) "\<not> d_day d < days_in_month (d_year d) (d_month d)" "d_month d < 11"
    | (year) "\<not> d_day d < days_in_month (d_year d) (d_month d)" "\<not> d_month d < 11"
    by blast
  then show ?thesis
  proof cases
    case inner
    then show ?thesis using m by (simp add: next_day_def calendar_date_def)
  next
    case month
    have "1 \<le> days_in_month (d_year d) (d_month d + 1)"
      using days_in_month_ge[of "d_year d" "d_month d + 1"] by linarith
    then show ?thesis using month by (simp add: next_day_def calendar_date_def)
  next
    case year
    have "1 \<le> days_in_month (d_year d + 1) 0"
      using days_in_month_ge[of "d_year d + 1" 0] by linarith
    then show ?thesis using year by (simp add: next_day_def calendar_date_def)
  qed
qed

lemma calendar_prev_day: "calendar_date d \<Longrightarrow> calendar_date (prev_day d)"
proof -
  assume v: "calendar_date d"
  then have m: "d_month d < 12" and hi: "d_day d \<le> days_in_month (d_year d) (d_month d)"
    by (simp_all add: calendar_date_def)
  consider (inner) "1 < d_day d" | (month) "\<not> 1 < d_day d" "0 < d_month d"
    | (year) "\<not> 1 < d_day d" "\<not> 0 < d_month d"
    by blast
  then show ?thesis
  proof cases
    case inner
    then have "1 \<le> d_day d - 1" "d_day d - 1 \<le> days_in_month (d_year d) (d_month d)"
      using hi by linarith+
    then show ?thesis using inner m by (simp add: prev_day_def calendar_date_def)
  next
    case month
    have "1 \<le> days_in_month (d_year d) (d_month d - 1)"
      using days_in_month_ge[of "d_year d" "d_month d - 1"] by linarith
    then show ?thesis using month m by (simp add: prev_day_def calendar_date_def)
  next
    case year
    then show ?thesis by (simp add: prev_day_def calendar_date_def days_in_month_december)
  qed
qed

text \<open>The day after has the next day number: within a month, across a month's end (the
  end of February through \<open>year_step\<close>) and across the year's end.\<close>

lemma day_number_next: "calendar_date d \<Longrightarrow> day_number (next_day d) = day_number d + 1"
proof -
  assume v: "calendar_date d"
  then have m: "d_month d < 12" and hi: "d_day d \<le> days_in_month (d_year d) (d_month d)"
    by (simp_all add: calendar_date_def)
  show ?thesis
  proof (cases "d_day d < days_in_month (d_year d) (d_month d)")
    case True
    then show ?thesis by (simp add: next_day_def day_number_def Let_def)
  next
    case False
    then have e: "d_day d = days_in_month (d_year d) (d_month d)" using hi by simp
    have f: "year_days (d_year d) = year_days (d_year d - 1) + (if is_leap (d_year d) then 366 else 365)"
      using year_step[of "d_year d"] by simp
    from m show ?thesis
      by (cases rule: month_cases)
         (simp_all add: next_day_def day_number_def Let_def days_in_month_def e f)
  qed
qed

lemma next_prev_day: "calendar_date d \<Longrightarrow> next_day (prev_day d) = d"
proof -
  assume v: "calendar_date d"
  then have m: "d_month d < 12" and lo: "1 \<le> d_day d"
    and hi: "d_day d \<le> days_in_month (d_year d) (d_month d)"
    by (simp_all add: calendar_date_def)
  consider (inner) "1 < d_day d" | (month) "d_day d = 1" "0 < d_month d"
    | (year) "d_day d = 1" "d_month d = 0"
    using lo by linarith
  then show ?thesis
  proof cases
    case inner
    then show ?thesis using hi by (simp add: prev_day_def next_day_def)
  next
    case month
    have "d\<lparr>d_month := d_month d, d_day := 1\<rparr> = d" using month(1) by simp
    then show ?thesis using month m by (simp add: prev_day_def next_day_def)
  next
    case year
    have "d\<lparr>d_year := d_year d, d_month := 0, d_day := 1\<rparr> = d" using year by simp
    then show ?thesis using year by (simp add: prev_day_def next_day_def days_in_month_def)
  qed
qed

lemma day_number_prev: "calendar_date d \<Longrightarrow> day_number (prev_day d) = day_number d - 1"
  using day_number_next[of "prev_day d"] calendar_prev_day[of d] next_prev_day[of d] by simp

lemma calendar_add_days: "calendar_date d \<Longrightarrow> calendar_date (add_days n d)"
  unfolding add_days_def by (induction n) (simp_all add: calendar_next_day)

lemma calendar_subtract_days: "calendar_date d \<Longrightarrow> calendar_date (subtract_days n d)"
  unfolding subtract_days_def by (induction n) (simp_all add: calendar_prev_day)

lemma day_number_add_days: "calendar_date d \<Longrightarrow> day_number (add_days n d) = day_number d + int n"
proof (induction n)
  case 0
  then show ?case by (simp add: add_days_def)
next
  case (Suc n)
  have "add_days (Suc n) d = next_day (add_days n d)" by (simp add: add_days_def)
  then show ?case using Suc day_number_next[OF calendar_add_days[OF Suc.prems, of n]] by simp
qed

lemma day_number_subtract_days:
  "calendar_date d \<Longrightarrow> day_number (subtract_days n d) = day_number d - int n"
proof (induction n)
  case 0
  then show ?case by (simp add: subtract_days_def)
next
  case (Suc n)
  have "subtract_days (Suc n) d = prev_day (subtract_days n d)" by (simp add: subtract_days_def)
  then show ?case using Suc day_number_prev[OF calendar_subtract_days[OF Suc.prems, of n]] by simp
qed

lemma mod_7_shift:
  "(x + 7 + 4) mod 7 = (x + 4) mod (7::int)" "(x - 7 + 4) mod 7 = (x + 4) mod (7::int)"
proof -
  have "x + 7 + 4 = x + 4 + 7" by simp
  then show "(x + 7 + 4) mod 7 = (x + 4) mod (7::int)" by (simp only: mod_add_self2)
  have "x + 4 = (x - 7 + 4) + 7" by simp
  then have "(x + 4) mod 7 = ((x - 7 + 4) + 7) mod 7" by (rule arg_cong)
  then show "(x - 7 + 4) mod 7 = (x + 4) mod (7::int)" by (simp only: mod_add_self2)
qed

text \<open>Seven days on, and seven days back, is the same day of the week.\<close>

lemma weekday_add_7: "day_number d' = day_number d + 7 \<Longrightarrow> weekday dow d' = weekday dow d"
  by (simp only: weekday_def js_day_def mod_7_shift)

lemma weekday_subtract_7: "day_number d' = day_number d - 7 \<Longrightarrow> weekday dow d' = weekday dow d"
  by (simp only: weekday_def js_day_def mod_7_shift)

section \<open>Lemmas on the handlers\<close>

lemma anchorShortcut_other_key:
  "key \<noteq> ''#'' \<Longrightarrow> key \<noteq> ''^'' \<Longrightarrow> anchorShortcut key st = None"
  by (simp add: anchorShortcut_def)

lemma destroyDatePicker_constructed:
  assumes "datePickerEl st = Some el" and "datePickerInstance st = Some inst"
  shows "\<exists>st'. destroyDatePicker st = (Returned, st', [FlatpickrDestroy, ElementRemove, SetTimeout])
     \<and> datePickerEl st' = Some (el\<lparr>attached := False\<rparr>)
     \<and> datePickerInstance st' = Some (inst\<lparr>destroyed := True\<rparr>)
     \<and> pendingTimeouts st' = Suc (pendingTimeouts st)
     \<and> isAutocompleteVisibleRef st' = (shown (dropdown st) \<and> isAutocompleteVisibleRef st)
     \<and> dropdown st' = dropdown st
     \<and> keydownListener st' = keydownListener st
     \<and> changeListener st' = changeListener st
     \<and> excludeDatePicker st' = excludeDatePicker st
     \<and> dateTrigger st' = dateTrigger st
     \<and> autocompleteDestroyed st' = autocompleteDestroyed st
     \<and> editorDestroyed st' = editorDestroyed st"
  using assms by (simp add: destroyDatePicker_def Let_def)

lemma destroyDatePicker_no_instance:
  "datePickerInstance st = None \<Longrightarrow> fst (destroyDatePicker st) = Threw TypeError"
  by (simp add: destroyDatePicker_def Let_def)

lemma datePickerKeys_arrow:
  assumes "datePickerEl st = Some el" and "datePickerInstance st = Some inst"
    and "key \<noteq> ''Enter''" and "key \<noteq> ''Escape''"
  shows "datePickerKeys h now key st =
     (let currentDate = first_or now (selectedDates inst) in
      if key = ''ArrowRight'' then
        (if weekday (week_start h) currentDate = 6
           then setDate h (toNextMonth currentDate) inst st
         else setDate h (moment_add_days h 1 currentDate) inst st)
      else if key = ''ArrowLeft'' then
        (if weekday (week_start h) currentDate = 0
           then setDate h (toPreviousMonth currentDate) inst st
         else setDate h (moment_subtract_days h 1 currentDate) inst st)
      else if key = ''ArrowUp'' then setDate h (subtract_week h currentDate) inst st
      else if key = ''ArrowDown'' then setDate h (add_week h currentDate) inst st
      else (Returned, st, []))"
  using assms by (simp add: datePickerKeys_def)

lemma keydownHandler_no_element:
  assumes "datePickerEl st = None" and "key \<noteq> ''#''" and "key \<noteq> ''^''"
  shows "keydownHandler h now key st = (Returned, st, [])"
  using assms by (simp add: keydownHandler_def anchorShortcut_other_key datePickerKeys_def)

lemma valid_date_calendar: "valid_date d \<Longrightarrow> calendar_date d"
  by (simp add: valid_date_def)

lemma month_index_toNextMonth:
  "d_month d < 12 \<Longrightarrow> month_index (toNextMonth d) = month_index d + 1"
  by (simp add: month_index_def toNextMonth_def)

lemma day_toNextMonth: "d_day (toNextMonth d) = 1"
  by (simp add: toNextMonth_def)

lemma month_index_toPreviousMonth:
  "month_index (toPreviousMonth d) = month_index d - 1"
  by (simp add: month_index_def toPreviousMonth_def)

text \<open>The day number is read from the calendar fields alone.\<close>

lemma day_number_d_ms: "day_number (d\<lparr>d_ms := t\<rparr>) = day_number d"
  by (simp add: day_number_def)

lemma same_day_d_ms: "same_day (d\<lparr>d_ms := t\<rparr>) d"
  by (simp add: same_day_def)

lemma day_number_moment_add_days:
  "calendar_date d \<Longrightarrow> day_number (moment_add_days h n d) = day_number d + int n"
  by (simp add: moment_add_days_def day_number_d_ms day_number_add_days)

lemma day_number_moment_subtract_days:
  "calendar_date d \<Longrightarrow> day_number (moment_subtract_days h n d) = day_number d - int n"
  by (simp add: moment_subtract_days_def day_number_d_ms day_number_subtract_days)

text \<open>What \<^verbatim>\<open>setDate\<close> does on an instance that is not destroyed: the date it is given is the
  one of the call, and the instance keeps a date of the same day.\<close>

lemma setDate_live:
  assumes "\<not> destroyed inst"
  shows "\<exists>kept. setDate h date inst st =
           (Returned, st\<lparr>datePickerInstance := Some (inst\<lparr>selectedDates := [kept]\<rparr>)\<rparr>,
            [PreventDefault, FlatpickrSetDate date])
         \<and> same_day kept date"
  using assms
  by (intro exI[of _ "date\<lparr>d_ms := kept_time h date\<rparr>"]) (simp add: setDate_def same_day_d_ms)

text \<open>The regular expression tests exactly what the specification's words say.\<close>

lemma regex_test_positions:
  "dateTriggerRegex_test trigger s = (\<exists>p. p \<le> length s \<and> matchAt trigger s p)"
proof -
  have "dateTriggerRegex_test trigger s = (\<exists>p\<in>{0..<Suc (length s)}. matchAt trigger s p)"
    by (simp only: dateTriggerRegex_test_def list_ex_iff set_upt)
  also have "\<dots> = (\<exists>p. p \<le> length s \<and> matchAt trigger s p)"
    by (simp only: Bex_def atLeastLessThan_iff less_Suc_eq_le) simp
  finally show ?thesis .
qed

lemma regex_test_iff: "dateTriggerRegex_test trigger s = atWordBoundary trigger s"
proof
  assume "dateTriggerRegex_test trigger s"
  then obtain p where m: "matchAt trigger s p"
    unfolding regex_test_positions by blast
  from m consider (start) "p = 0" "drop p s = trigger"
    | (space) "p < length s" "is_js_space (s ! p)" "drop (Suc p) s = trigger"
    unfolding matchAt_def by blast
  then show "atWordBoundary trigger s"
  proof cases
    case start
    then show ?thesis by (simp add: atWordBoundary_def)
  next
    case space
    have "s = take p s @ s ! p # drop (Suc p) s" using space(1) by (rule id_take_nth_drop)
    then have "s = take p s @ s ! p # trigger" using space(3) by simp
    then show ?thesis using space(2) unfolding atWordBoundary_def by blast
  qed
next
  assume "atWordBoundary trigger s"
  then consider (whole) "s = trigger"
    | (after) before c where "s = before @ c # trigger" "is_js_space c"
    unfolding atWordBoundary_def by blast
  then show "dateTriggerRegex_test trigger s"
  proof cases
    case whole
    then have "matchAt trigger s 0" by (simp add: matchAt_def)
    then show ?thesis unfolding regex_test_positions by blast
  next
    case after
    have "matchAt trigger s (length before)"
      using after by (simp add: matchAt_def)
    moreover have "length before \<le> length s" using after by simp
    ultimately show ?thesis unfolding regex_test_positions by blast
  qed
qed

lemma atWordBoundary_nonempty: "trigger \<noteq> [] \<Longrightarrow> atWordBoundary trigger s \<Longrightarrow> s \<noteq> []"
  by (auto simp: atWordBoundary_def)

text \<open>The change handler on a text that matches, for a non-empty trigger, and on a text that
  does not.\<close>

lemma onChange_match:
  assumes "dateTrigger st \<noteq> []" and "atWordBoundary (dateTrigger st) s"
  shows "onChange position s st =
     (case datePickerEl st of
        Some el \<Rightarrow>
          (Returned,
           st\<lparr>datePickerEl :=
                Some (el\<lparr>style_left := or_zero (pos_left position),
                         style_top := or_zero (pos_top position)\<rparr>)\<rparr>,
           [EnsureDatePickerIsOnScreen])
      | None \<Rightarrow>
          (Returned,
           st\<lparr>datePickerEl :=
                Some \<lparr>style_left = or_zero (pos_left position),
                      style_top = or_zero (pos_top position), attached = True\<rparr>\<rparr>,
           [CreateDiv, ConstructDatePicker]))"
  using assms atWordBoundary_nonempty[OF assms]
  by (simp add: onChange_def regex_test_iff)

lemma onChange_no_match:
  assumes "\<not> atWordBoundary (dateTrigger st) s"
  shows "onChange position s st =
     (case datePickerEl st of Some el \<Rightarrow> destroyDatePicker st | None \<Rightarrow> (Returned, st, []))"
  using assms by (simp add: onChange_def regex_test_iff)

text \<open>The function \<^verbatim>\<open>constructAutocomplete\<close> returns: with no picker element, with a picker
  that has its instance, and with a picker element whose instance has not been delivered.\<close>

lemma teardown_no_element:
  assumes "datePickerEl st = None"
  shows "teardown inputPresent st =
     (Returned,
      st\<lparr>keydownListener := keydownListener st \<and> \<not> (\<not> excludeDatePicker st \<and> inputPresent),
         autocompleteDestroyed := True, editorDestroyed := True\<rparr>,
      (if \<not> excludeDatePicker st \<and> inputPresent then [RemoveEventListener] else [])
        @ [AutocompleteDestroy, EditorDestroy])"
  using assms by (simp add: teardown_def Let_def)

lemma teardown_constructed:
  assumes "datePickerEl st = Some el" and "datePickerInstance st = Some inst"
  shows "\<exists>st'. teardown inputPresent st =
       (Returned, st',
        (if \<not> excludeDatePicker st \<and> inputPresent then [RemoveEventListener] else [])
          @ [FlatpickrDestroy, ElementRemove, SetTimeout, AutocompleteDestroy, EditorDestroy])
     \<and> datePickerEl st' = Some (el\<lparr>attached := False\<rparr>)
     \<and> datePickerInstance st' = Some (inst\<lparr>destroyed := True\<rparr>)
     \<and> pendingTimeouts st' = Suc (pendingTimeouts st)
     \<and> keydownListener st' = (keydownListener st \<and> \<not> (\<not> excludeDatePicker st \<and> inputPresent))
     \<and> autocompleteDestroyed st' \<and> editorDestroyed st'"
proof -
  define st1 where "st1 = (if \<not> excludeDatePicker st \<and> inputPresent
                           then st\<lparr>keydownListener := False\<rparr> else st)"
  have e1: "datePickerEl st1 = Some el" and i1: "datePickerInstance st1 = Some inst"
    and p1: "pendingTimeouts st1 = pendingTimeouts st"
    and k1: "keydownListener st1 = (keydownListener st \<and> \<not> (\<not> excludeDatePicker st \<and> inputPresent))"
    using assms by (simp_all add: st1_def)
  from destroyDatePicker_constructed[OF e1 i1] obtain st2 where
    d: "destroyDatePicker st1 = (Returned, st2, [FlatpickrDestroy, ElementRemove, SetTimeout])"
    and f: "datePickerEl st2 = Some (el\<lparr>attached := False\<rparr>)"
      "datePickerInstance st2 = Some (inst\<lparr>destroyed := True\<rparr>)"
      "pendingTimeouts st2 = Suc (pendingTimeouts st1)"
      "keydownListener st2 = keydownListener st1"
    by blast
  have "teardown inputPresent st =
       (Returned, st2\<lparr>autocompleteDestroyed := True, editorDestroyed := True\<rparr>,
        (if \<not> excludeDatePicker st \<and> inputPresent then [RemoveEventListener] else [])
          @ [FlatpickrDestroy, ElementRemove, SetTimeout, AutocompleteDestroy, EditorDestroy])"
    using e1 d by (simp add: teardown_def Let_def st1_def[symmetric])
  then show ?thesis using f p1 k1 by simp
qed

lemma teardown_no_instance:
  assumes "datePickerEl st = Some el" and "datePickerInstance st = None"
  shows "\<exists>st'. teardown inputPresent st =
       (Threw TypeError, st',
        (if \<not> excludeDatePicker st \<and> inputPresent then [RemoveEventListener] else []))
     \<and> keydownListener st' = (keydownListener st \<and> \<not> (\<not> excludeDatePicker st \<and> inputPresent))"
  using assms by (simp add: teardown_def destroyDatePicker_def Let_def)

lemma keydownListener_constructAutocomplete:
  "keydownListener (constructAutocomplete exclude trigger visible) = (\<not> exclude)"
  by (simp add: constructAutocomplete_def)

text \<open>With the element reference null, the key handler and the change handler do not reach
  \<^verbatim>\<open>destroyDatePicker\<close>.\<close>

lemma callers_skip_destroy_without_element:
  assumes "datePickerEl st = None"
  shows "keydownHandler h now ''Enter'' st = (Returned, st, [])
     \<and> keydownHandler h now ''Escape'' st = (Returned, st, [])
     \<and> (\<not> atWordBoundary (dateTrigger st) beforeCursor
          \<longrightarrow> onChange position beforeCursor st = (Returned, st, []))"
proof (intro conjI impI)
  show "keydownHandler h now ''Enter'' st = (Returned, st, [])"
    by (rule keydownHandler_no_element[OF assms]) simp_all
  show "keydownHandler h now ''Escape'' st = (Returned, st, [])"
    by (rule keydownHandler_no_element[OF assms]) simp_all
next
  assume "\<not> atWordBoundary (dateTrigger st) beforeCursor"
  then show "onChange position beforeCursor st = (Returned, st, [])"
    using onChange_no_match[of st beforeCursor position] assms by simp
qed

section \<open>The worked example, step by step\<close>

lemma js_at: "js ''@'' = [64]"
  by (simp add: js_def)

lemma js_meeting_at: "js ''Meeting @'' = js ''Meeting'' @ 32 # js ''@''"
  by (simp add: js_def)

lemma meeting_at_boundary: "atWordBoundary (js ''@'') (js ''Meeting @'')"
  unfolding atWordBoundary_def
  by (rule disjI2, rule exI[of _ "js ''Meeting''"], rule exI[of _ 32])
     (simp add: js_meeting_at is_js_space_def)

lemma meeting_at_x_no_boundary: "\<not> atWordBoundary (js ''@'') (js ''Meeting @x'')"
proof -
  have "\<not> dateTriggerRegex_test (js ''@'') (js ''Meeting @x'')"
    by (simp add: dateTriggerRegex_test_def matchAt_def js_def is_js_space_def upt_rec)
  then show ?thesis by (simp add: regex_test_iff)
qed

lemma example_initial_fields:
  "dateTrigger example_initial = js ''@''" "datePickerEl example_initial = None"
  "datePickerInstance example_initial = None" "keydownListener example_initial"
  by (simp_all add: example_initial_def constructAutocomplete_def)

lemma example_created_eq: "example_created = example_initial\<lparr>datePickerEl := Some example_el\<rparr>"
proof -
  have t: "dateTrigger example_initial \<noteq> []" by (simp add: example_initial_fields js_at)
  have b: "atWordBoundary (dateTrigger example_initial) (js ''Meeting @'')"
    by (simp add: example_initial_fields meeting_at_boundary)
  show ?thesis
    unfolding example_created_def onChange_match[OF t b]
    by (simp add: example_initial_fields example_position_def example_el_def or_zero_def)
qed

lemma example_created_fields:
  "datePickerEl example_created = Some example_el" "datePickerInstance example_created = None"
  "dateTrigger example_created = js ''@''" "\<not> excludeDatePicker example_created"
  "\<not> autocompleteDestroyed example_created" "\<not> editorDestroyed example_created"
  "\<not> shown (dropdown example_created)" "activeItem (dropdown example_created) = None"
  by (simp_all add: example_created_eq example_initial_def constructAutocomplete_def)

lemma example_visible_eq:
  "example_visible = example_initial\<lparr>datePickerEl := Some example_el,
     datePickerInstance := Some example_picker, isAutocompleteVisibleRef := True\<rparr>"
  by (simp add: example_visible_def pickerCallback_def example_created_eq)

lemma example_visible_is_visible: "pickerVisible example_visible example_el example_picker"
  by (simp add: pickerVisible_def example_visible_eq example_el_def example_picker_def)

lemma example_now_valid: "valid_date example_now"
  by (simp add: valid_date_def calendar_date_def example_now_def days_in_month_def)

lemma example_now_day_number: "day_number example_now = 20764"
  by (simp add: day_number_def example_now_def year_days_def)

lemma example_now_saturday: "weekday (week_start example_host) example_now = 6"
  by (simp add: weekday_def js_day_def example_now_day_number example_host_def)

lemma example_shown_fields:
  "keydownListener example_shown" "shown (dropdown example_shown)"
  "activeItem (dropdown example_shown) = Some example_link_item"
  by (simp_all add: example_shown_def onShow_def example_initial_fields)

section \<open>The keys of the date picker\<close>

text \<open>
  C1. When the date picker is visible and Enter is pressed, the handler prevents the default
  handling, calls \<^verbatim>\<open>applyDate\<close> with the first selected date if there is one and with the
  current day otherwise, and then destroys the picker: the flatpickr instance is destroyed,
  the element is removed, and the element reference is cleared when the timeout runs.
\<close>

theorem enter_applies_date_and_destroys:
  assumes "pickerVisible st el inst"
  shows "\<exists>st'. keydownHandler h now ''Enter'' st =
           (Returned, st',
            [PreventDefault,
             ApplyDate (case selectedDates inst of [] \<Rightarrow> now | selected # _ \<Rightarrow> selected),
             FlatpickrDestroy, ElementRemove, SetTimeout])
         \<and> datePickerEl st' = Some (el\<lparr>attached := False\<rparr>)
         \<and> datePickerInstance st' = Some (inst\<lparr>destroyed := True\<rparr>)
         \<and> datePickerEl (timeoutFires st') = None"
proof -
  from assms have el: "datePickerEl st = Some el" and inst: "datePickerInstance st = Some inst"
    by (simp_all add: pickerVisible_def)
  from destroyDatePicker_constructed[OF el inst] obtain st' where
    d: "destroyDatePicker st = (Returned, st', [FlatpickrDestroy, ElementRemove, SetTimeout])"
    and e: "datePickerEl st' = Some (el\<lparr>attached := False\<rparr>)"
    and i: "datePickerInstance st' = Some (inst\<lparr>destroyed := True\<rparr>)"
    and p: "pendingTimeouts st' = Suc (pendingTimeouts st)"
    by blast
  have a: "anchorShortcut ''Enter'' st = None" by (rule anchorShortcut_other_key) simp_all
  have "keydownHandler h now ''Enter'' st =
           (Returned, st',
            [PreventDefault,
             ApplyDate (case selectedDates inst of [] \<Rightarrow> now | selected # _ \<Rightarrow> selected),
             FlatpickrDestroy, ElementRemove, SetTimeout])"
    by (simp add: keydownHandler_def a datePickerKeys_def el inst d first_or_def)
  moreover have "datePickerEl (timeoutFires st') = None" using p by (simp add: timeoutFires_def)
  ultimately show ?thesis using e i by blast
qed

theorem enter_applies_date_and_destroys_witness:
  "pickerVisible example_visible example_el example_picker
   \<and> (\<exists>st'. keydownHandler example_host example_now ''Enter'' example_visible =
          (Returned, st',
           [PreventDefault, ApplyDate example_now, FlatpickrDestroy, ElementRemove, SetTimeout])
        \<and> datePickerEl st' = Some (example_el\<lparr>attached := False\<rparr>)
        \<and> datePickerInstance st' = Some (example_picker\<lparr>destroyed := True\<rparr>)
        \<and> datePickerEl (timeoutFires st') = None)"
  using example_visible_is_visible
    enter_applies_date_and_destroys[OF example_visible_is_visible, of example_host example_now]
  by (simp add: example_picker_def)

text \<open>
  C2. While the date picker is visible, ArrowRight hands \<^verbatim>\<open>setDate\<close> the first day of the next
  calendar month when the current date has weekday 6, and the next calendar day otherwise;
  ArrowLeft hands it a day of the previous calendar month when the current date has weekday
  0, and the calendar day before otherwise. The picker then keeps a date of that same day.
  The current date is the first selected date, or today when none is selected.
\<close>

theorem arrow_right_left_move_date:
  assumes "pickerVisible st el inst"
    and "currentDate = (case selectedDates inst of [] \<Rightarrow> now | selected # _ \<Rightarrow> selected)"
    and "valid_date currentDate"
  shows "(\<exists>date kept. keydownHandler h now ''ArrowRight'' st =
            (Returned, st\<lparr>datePickerInstance := Some (inst\<lparr>selectedDates := [kept]\<rparr>)\<rparr>,
             [PreventDefault, FlatpickrSetDate date])
          \<and> same_day kept date
          \<and> (if weekday (week_start h) currentDate = 6
              then d_day date = 1 \<and> month_index date = month_index currentDate + 1
              else day_number date = day_number currentDate + 1))
       \<and> (\<exists>date kept. keydownHandler h now ''ArrowLeft'' st =
            (Returned, st\<lparr>datePickerInstance := Some (inst\<lparr>selectedDates := [kept]\<rparr>)\<rparr>,
             [PreventDefault, FlatpickrSetDate date])
          \<and> same_day kept date
          \<and> (if weekday (week_start h) currentDate = 0
              then month_index date = month_index currentDate - 1
              else day_number date = day_number currentDate - 1))"
proof -
  from assms(1) have el: "datePickerEl st = Some el" and inst: "datePickerInstance st = Some inst"
    and live: "\<not> destroyed inst"
    by (simp_all add: pickerVisible_def)
  have cur: "first_or now (selectedDates inst) = currentDate"
    by (simp add: assms(2) first_or_def)
  have cal: "calendar_date currentDate" using assms(3) by (rule valid_date_calendar)
  then have m: "d_month currentDate < 12" by (simp add: calendar_date_def)
  have ar: "anchorShortcut ''ArrowRight'' st = None" by (rule anchorShortcut_other_key) simp_all
  have al: "anchorShortcut ''ArrowLeft'' st = None" by (rule anchorShortcut_other_key) simp_all
  define right where "right = (if weekday (week_start h) currentDate = 6 then toNextMonth currentDate
               else moment_add_days h 1 currentDate)"
  define left where "left = (if weekday (week_start h) currentDate = 0 then toPreviousMonth currentDate
               else moment_subtract_days h 1 currentDate)"
  have r: "keydownHandler h now ''ArrowRight'' st = setDate h right inst st"
    by (simp add: keydownHandler_def ar datePickerKeys_arrow[OF el inst] cur right_def)
  have l: "keydownHandler h now ''ArrowLeft'' st = setDate h left inst st"
    by (simp add: keydownHandler_def al datePickerKeys_arrow[OF el inst] cur left_def)
  have pr: "if weekday (week_start h) currentDate = 6
              then d_day right = 1 \<and> month_index right = month_index currentDate + 1
              else day_number right = day_number currentDate + 1"
    using day_number_moment_add_days[OF cal, of h 1]
    by (simp add: right_def day_toNextMonth month_index_toNextMonth[OF m])
  have pl: "if weekday (week_start h) currentDate = 0
              then month_index left = month_index currentDate - 1
              else day_number left = day_number currentDate - 1"
    using day_number_moment_subtract_days[OF cal, of h 1]
    by (simp add: left_def month_index_toPreviousMonth)
  from setDate_live[OF live, of h right st] obtain kr where
    kr: "setDate h right inst st =
           (Returned, st\<lparr>datePickerInstance := Some (inst\<lparr>selectedDates := [kr]\<rparr>)\<rparr>,
            [PreventDefault, FlatpickrSetDate right])" "same_day kr right"
    by blast
  from setDate_live[OF live, of h left st] obtain kl where
    kl: "setDate h left inst st =
           (Returned, st\<lparr>datePickerInstance := Some (inst\<lparr>selectedDates := [kl]\<rparr>)\<rparr>,
            [PreventDefault, FlatpickrSetDate left])" "same_day kl left"
    by blast
  have R: "\<exists>date kept. keydownHandler h now ''ArrowRight'' st =
            (Returned, st\<lparr>datePickerInstance := Some (inst\<lparr>selectedDates := [kept]\<rparr>)\<rparr>,
             [PreventDefault, FlatpickrSetDate date])
          \<and> same_day kept date
          \<and> (if weekday (week_start h) currentDate = 6
              then d_day date = 1 \<and> month_index date = month_index currentDate + 1
              else day_number date = day_number currentDate + 1)"
    using r kr pr by (intro exI[of _ right] exI[of _ kr]) simp
  have L: "\<exists>date kept. keydownHandler h now ''ArrowLeft'' st =
            (Returned, st\<lparr>datePickerInstance := Some (inst\<lparr>selectedDates := [kept]\<rparr>)\<rparr>,
             [PreventDefault, FlatpickrSetDate date])
          \<and> same_day kept date
          \<and> (if weekday (week_start h) currentDate = 0
              then month_index date = month_index currentDate - 1
              else day_number date = day_number currentDate - 1)"
    using l kl pl by (intro exI[of _ left] exI[of _ kl]) simp
  from R L show ?thesis by (rule conjI)
qed

theorem arrow_right_left_move_date_witness:
  "pickerVisible example_visible example_el example_picker \<and> valid_date example_now
   \<and> weekday (week_start example_host) example_now = 6
   \<and> (\<exists>date kept. keydownHandler example_host example_now ''ArrowRight'' example_visible =
          (Returned,
           example_visible\<lparr>datePickerInstance := Some (example_picker\<lparr>selectedDates := [kept]\<rparr>)\<rparr>,
           [PreventDefault, FlatpickrSetDate date])
        \<and> same_day kept date
        \<and> d_day date = 1 \<and> month_index date = month_index example_now + 1)
   \<and> (\<exists>date kept. keydownHandler example_host example_now ''ArrowLeft'' example_visible =
          (Returned,
           example_visible\<lparr>datePickerInstance := Some (example_picker\<lparr>selectedDates := [kept]\<rparr>)\<rparr>,
           [PreventDefault, FlatpickrSetDate date])
        \<and> same_day kept date
        \<and> day_number date = 20763)"
proof -
  have c: "example_now = (case selectedDates example_picker of [] \<Rightarrow> example_now | selected # _ \<Rightarrow> selected)"
    by (simp add: example_picker_def)
  show ?thesis
    using arrow_right_left_move_date[OF example_visible_is_visible c example_now_valid, of example_host]
    by (simp add: example_visible_is_visible example_now_valid example_now_saturday
        example_now_day_number)
qed

text \<open>
  C3. While the date picker is visible, ArrowUp hands \<^verbatim>\<open>setDate\<close> the calendar day exactly seven
  days earlier and ArrowDown the one exactly seven days later, whatever the day of the week
  and wherever the month ends; it is the same day of the week, and the picker keeps a date
  of that same day.
\<close>

theorem arrow_up_down_move_a_week:
  assumes "pickerVisible st el inst"
    and "currentDate = (case selectedDates inst of [] \<Rightarrow> now | selected # _ \<Rightarrow> selected)"
    and "valid_date currentDate"
  shows "(\<exists>date kept. keydownHandler h now ''ArrowUp'' st =
            (Returned, st\<lparr>datePickerInstance := Some (inst\<lparr>selectedDates := [kept]\<rparr>)\<rparr>,
             [PreventDefault, FlatpickrSetDate date])
          \<and> same_day kept date
          \<and> day_number date = day_number currentDate - 7
          \<and> weekday (week_start h) date = weekday (week_start h) currentDate)
       \<and> (\<exists>date kept. keydownHandler h now ''ArrowDown'' st =
            (Returned, st\<lparr>datePickerInstance := Some (inst\<lparr>selectedDates := [kept]\<rparr>)\<rparr>,
             [PreventDefault, FlatpickrSetDate date])
          \<and> same_day kept date
          \<and> day_number date = day_number currentDate + 7
          \<and> weekday (week_start h) date = weekday (week_start h) currentDate)"
proof -
  from assms(1) have el: "datePickerEl st = Some el" and inst: "datePickerInstance st = Some inst"
    and live: "\<not> destroyed inst"
    by (simp_all add: pickerVisible_def)
  have cur: "first_or now (selectedDates inst) = currentDate"
    by (simp add: assms(2) first_or_def)
  have cal: "calendar_date currentDate" using assms(3) by (rule valid_date_calendar)
  have au: "anchorShortcut ''ArrowUp'' st = None" by (rule anchorShortcut_other_key) simp_all
  have ad: "anchorShortcut ''ArrowDown'' st = None" by (rule anchorShortcut_other_key) simp_all
  have u: "keydownHandler h now ''ArrowUp'' st = setDate h (subtract_week h currentDate) inst st"
    by (simp add: keydownHandler_def au datePickerKeys_arrow[OF el inst] cur)
  have d: "keydownHandler h now ''ArrowDown'' st = setDate h (add_week h currentDate) inst st"
    by (simp add: keydownHandler_def ad datePickerKeys_arrow[OF el inst] cur)
  have nu: "day_number (subtract_week h currentDate) = day_number currentDate - 7"
    using day_number_moment_subtract_days[OF cal, of h 7] by (simp add: subtract_week_def)
  have nd: "day_number (add_week h currentDate) = day_number currentDate + 7"
    using day_number_moment_add_days[OF cal, of h 7] by (simp add: add_week_def)
  from setDate_live[OF live, of h "subtract_week h currentDate" st] obtain ku where
    ku: "setDate h (subtract_week h currentDate) inst st =
           (Returned, st\<lparr>datePickerInstance := Some (inst\<lparr>selectedDates := [ku]\<rparr>)\<rparr>,
            [PreventDefault, FlatpickrSetDate (subtract_week h currentDate)])"
      "same_day ku (subtract_week h currentDate)"
    by blast
  from setDate_live[OF live, of h "add_week h currentDate" st] obtain kd where
    kd: "setDate h (add_week h currentDate) inst st =
           (Returned, st\<lparr>datePickerInstance := Some (inst\<lparr>selectedDates := [kd]\<rparr>)\<rparr>,
            [PreventDefault, FlatpickrSetDate (add_week h currentDate)])"
      "same_day kd (add_week h currentDate)"
    by blast
  have up: "\<exists>date kept. keydownHandler h now ''ArrowUp'' st =
            (Returned, st\<lparr>datePickerInstance := Some (inst\<lparr>selectedDates := [kept]\<rparr>)\<rparr>,
             [PreventDefault, FlatpickrSetDate date])
          \<and> same_day kept date
          \<and> day_number date = day_number currentDate - 7
          \<and> weekday (week_start h) date = weekday (week_start h) currentDate"
    using u ku nu weekday_subtract_7[OF nu, of "week_start h"]
    by (intro exI[of _ "subtract_week h currentDate"] exI[of _ ku]) simp
  have down: "\<exists>date kept. keydownHandler h now ''ArrowDown'' st =
            (Returned, st\<lparr>datePickerInstance := Some (inst\<lparr>selectedDates := [kept]\<rparr>)\<rparr>,
             [PreventDefault, FlatpickrSetDate date])
          \<and> same_day kept date
          \<and> day_number date = day_number currentDate + 7
          \<and> weekday (week_start h) date = weekday (week_start h) currentDate"
    using d kd nd weekday_add_7[OF nd, of "week_start h"]
    by (intro exI[of _ "add_week h currentDate"] exI[of _ kd]) simp
  from up down show ?thesis by (rule conjI)
qed

theorem arrow_up_down_move_a_week_witness:
  "pickerVisible example_visible example_el example_picker \<and> valid_date example_now
   \<and> (\<exists>date kept. keydownHandler example_host example_now ''ArrowUp'' example_visible =
          (Returned,
           example_visible\<lparr>datePickerInstance := Some (example_picker\<lparr>selectedDates := [kept]\<rparr>)\<rparr>,
           [PreventDefault, FlatpickrSetDate date])
        \<and> same_day kept date
        \<and> day_number date = 20757 \<and> weekday (week_start example_host) date = 6)
   \<and> (\<exists>date kept. keydownHandler example_host example_now ''ArrowDown'' example_visible =
          (Returned,
           example_visible\<lparr>datePickerInstance := Some (example_picker\<lparr>selectedDates := [kept]\<rparr>)\<rparr>,
           [PreventDefault, FlatpickrSetDate date])
        \<and> same_day kept date
        \<and> day_number date = 20771 \<and> weekday (week_start example_host) date = 6)"
proof -
  have c: "example_now = (case selectedDates example_picker of [] \<Rightarrow> example_now | selected # _ \<Rightarrow> selected)"
    by (simp add: example_picker_def)
  show ?thesis
    using arrow_up_down_move_a_week[OF example_visible_is_visible c example_now_valid, of example_host]
    by (simp add: example_visible_is_visible example_now_valid example_now_saturday
        example_now_day_number)
qed

section \<open>The picker element without its instance\<close>

text \<open>
  The element reference is set when the change handler creates the \<^verbatim>\<open>div\<close>; the instance
  reference is set later, by the callback given to \<^verbatim>\<open>constructDatePicker\<close>. In between,
  \<^verbatim>\<open>datePickerEl\<close> passes the callers' tests and \<^verbatim>\<open>datePickerInstance.destroy()\<close> is a call on
  \<^verbatim>\<open>null\<close>.

  C4. In that state a text change that no longer matches the trigger throws a
  \<^verbatim>\<open>TypeError\<close> out of the change handler: nothing is destroyed, and the element stays in the
  document.
\<close>

theorem change_before_instance_throws:
  "datePickerEl example_created = Some example_el \<and> datePickerInstance example_created = None
   \<and> \<not> atWordBoundary (dateTrigger example_created) (js ''Meeting @x'')
   \<and> (\<exists>st'. onChange example_position (js ''Meeting @x'') example_created =
          (Threw TypeError, st', [])
        \<and> datePickerEl st' = Some example_el \<and> attached example_el)"
proof -
  have b: "\<not> atWordBoundary (dateTrigger example_created) (js ''Meeting @x'')"
    by (simp add: example_created_fields meeting_at_x_no_boundary)
  show ?thesis
    using b onChange_no_match[OF b, of example_position]
    by (simp add: destroyDatePicker_def Let_def example_created_fields example_el_def)
qed

text \<open>
  C5. In that state the function returned by \<^verbatim>\<open>constructAutocomplete\<close> removes the keydown
  listener and then throws a \<^verbatim>\<open>TypeError\<close>: the element stays in the document, and neither
  \<^verbatim>\<open>autocomplete.destroy()\<close> nor \<^verbatim>\<open>editor.destroy()\<close> is reached.
\<close>

theorem teardown_before_instance_throws:
  "datePickerEl example_created = Some example_el \<and> datePickerInstance example_created = None
   \<and> (\<exists>st'. teardown True example_created = (Threw TypeError, st', [RemoveEventListener])
        \<and> datePickerEl st' = Some example_el \<and> attached example_el
        \<and> \<not> autocompleteDestroyed st' \<and> \<not> editorDestroyed st')"
  by (simp add: teardown_def destroyDatePicker_def Let_def example_created_fields example_el_def)

text \<open>
  C6. In that state the destroy operation, with the instance reference null, is not a
  guarded no-op: it throws a \<^verbatim>\<open>TypeError\<close>; and so does the key handler on Escape, which
  calls it once its test of the element reference has passed.
\<close>

theorem destroy_before_instance_throws:
  "datePickerEl example_created = Some example_el \<and> datePickerInstance example_created = None
   \<and> (\<exists>st'. destroyDatePicker example_created = (Threw TypeError, st', [])
        \<and> datePickerEl st' = Some example_el \<and> datePickerInstance st' = None)
   \<and> (\<exists>st'. keydownHandler example_host example_now ''Escape'' example_created =
          (Threw TypeError, st', [PreventDefault])
        \<and> datePickerEl st' = Some example_el)"
proof -
  have a: "anchorShortcut ''Escape'' example_created = None"
    by (rule anchorShortcut_other_key) simp_all
  show ?thesis
    by (simp add: keydownHandler_def a datePickerKeys_def destroyDatePicker_def Let_def
        example_created_fields)
qed

section \<open>The anchor shortcut\<close>

text \<open>
  C8, as the code has it. While the keydown handler is installed, which
  \<^verbatim>\<open>constructAutocomplete\<close> does only when the date picker is not excluded, a \<^verbatim>\<open>#\<close> or \<^verbatim>\<open>^\<close> key
  pressed while the dropdown's active item belongs to a strategy whose id starts with
  \<^verbatim>\<open>link\<close> has its default handling prevented, the active candidate is applied to the editor,
  and \<^verbatim>\<open>#^\<close> (for \<^verbatim>\<open>^\<close>) or \<^verbatim>\<open>#\<close> (for \<^verbatim>\<open>#\<close>) is spliced in.
\<close>

theorem anchor_shortcut_applies_candidate:
  assumes "keydownListener st" and "key = ''#'' \<or> key = ''^''"
    and "activeItem (dropdown st) = Some searchResult"
    and "strategy_id searchResult = Some sid" and "take 4 sid = ''link''"
  shows "keydownEvent h now key st =
     (Returned, st,
      [PreventDefault, ApplySearchResult searchResult,
       ReplaceSelection (if key = ''^'' then ''#^'' else ''#'')])
     \<and> keydownListener (constructAutocomplete exclude trigger visible) = (\<not> exclude)"
  using assms
  by (auto simp: keydownEvent_def keydownHandler_def anchorShortcut_def
      keydownListener_constructAutocomplete)

theorem anchor_shortcut_applies_candidate_witness:
  "keydownListener example_shown \<and> shown (dropdown example_shown)
   \<and> activeItem (dropdown example_shown) = Some example_link_item
   \<and> strategy_id example_link_item = Some ''link-file''
   \<and> keydownEvent example_host example_now ''^'' example_shown =
       (Returned, example_shown,
        [PreventDefault, ApplySearchResult example_link_item, ReplaceSelection ''#^''])
   \<and> keydownEvent example_host example_now ''#'' example_shown =
       (Returned, example_shown,
        [PreventDefault, ApplySearchResult example_link_item, ReplaceSelection ''#''])"
proof -
  have s: "strategy_id example_link_item = Some ''link-file''" "take 4 ''link-file'' = ''link''"
    by (simp_all add: example_link_item_def)
  show ?thesis
    using anchor_shortcut_applies_candidate[OF example_shown_fields(1) _ example_shown_fields(3) s,
        of "''^''" example_host example_now]
      anchor_shortcut_applies_candidate[OF example_shown_fields(1) _ example_shown_fields(3) s,
        of "''#''" example_host example_now]
    by (simp add: example_shown_fields s)
qed

text \<open>
  With the date picker excluded no keydown handler is installed: the same key on the same
  dropdown does nothing.
\<close>

theorem anchor_shortcut_counterexample:
  "excludeDatePicker example_excluded \<and> shown (dropdown example_excluded)
   \<and> activeItem (dropdown example_excluded) = Some example_link_item
   \<and> strategy_id example_link_item = Some ''link-file''
   \<and> keydownEvent example_host example_now ''#'' example_excluded = (Returned, example_excluded, [])"
  by (simp add: example_excluded_def onShow_def constructAutocomplete_def keydownEvent_def
      example_link_item_def)

text \<open>C9\<close>

section \<open>The capture handler of the input\<close>

text \<open>
  C9. With \<^verbatim>\<open>onEnter\<close> given and \<^verbatim>\<open>onKeyDown\<close> left out, as the parameters' type allows, an
  Enter that nothing blocks makes the capture handler throw before any handler is called.
\<close>

theorem capture_without_onKeyDown_throws:
  "onKeyDown example_props = None \<and> onEnter example_props \<noteq> None
   \<and> onKeyDownCapture example_props False False ''Enter'' = (Threw TypeError, [])"
  by (simp add: example_props_def onKeyDownCapture_def)

text \<open>While composition is in progress or the autocomplete is visible, no external handler
  is called.\<close>

lemma capture_blocked:
  "imeBlocks \<or> visible \<Longrightarrow> onKeyDownCapture props imeBlocks visible key = (Returned, [])"
  by (auto simp: onKeyDownCapture_def)

text \<open>Otherwise, when \<^verbatim>\<open>onKeyDown\<close> is given, it is called first, and \<^verbatim>\<open>onEnter\<close> (for Enter) or
  \<^verbatim>\<open>onEscape\<close> (for Escape) after it, only when it did not report the event as handled.\<close>

lemma capture_passes_through:
  assumes "\<not> imeBlocks" and "\<not> visible" and "onKeyDown props = Some keyDown"
  shows "onKeyDownCapture props imeBlocks visible key =
     (Returned,
      CallOnKeyDown #
        (if keyDown key then []
         else if key = ''Enter'' \<and> onEnter props \<noteq> None then [CallOnEnter]
         else if key = ''Escape'' \<and> onEscape props \<noteq> None then [CallOnEscape]
         else []))"
  using assms by (auto simp: onKeyDownCapture_def split: option.splits)

section \<open>The candidate list and the file index\<close>

text \<open>
  C7. Whatever the query returns and however large the index is, the dropdown built with
  the options of \<^verbatim>\<open>constructAutocomplete\<close> holds at most 96 candidates.
\<close>

theorem dropdown_at_most_96: "length (dropdownItems dropdownOptions searchResults) \<le> 96"
  by (simp add: dropdownItems_def dropdownOptions_def)

text \<open>
  C10. Every entry of the collection the file index is built over, which is also the list
  handed to the file-link providers, has a file: the suggestions without one are filtered
  out before \<^verbatim>\<open>new Fuse(linkSuggestions, ...)\<close>. Nothing else is dropped, and the order is kept.
\<close>

theorem indexed_suggestions_have_file:
  "(\<forall>suggestion \<in> set (docs (fileSearch raw)). \<exists>file. ls_file suggestion = Some file)
   \<and> docs (fileSearch raw) = linkSuggestions raw
   \<and> set (linkSuggestions raw) = {suggestion \<in> set raw. ls_file suggestion \<noteq> None}"
  by (auto simp: fileSearch_def linkSuggestions_def)

theorem indexed_suggestions_have_file_witness:
  "docs (fileSearch
      [\<lparr>ls_file = Some \<lparr>basename = ''Inbox''\<rparr>, ls_path = ''Inbox.md'', ls_alias = None\<rparr>,
       \<lparr>ls_file = None, ls_path = ''Ghost.md'', ls_alias = None\<rparr>,
       \<lparr>ls_file = Some \<lparr>basename = ''Plan''\<rparr>, ls_path = ''Plan.md'', ls_alias = Some ''Roadmap''\<rparr>])
   = [\<lparr>ls_file = Some \<lparr>basename = ''Inbox''\<rparr>, ls_path = ''Inbox.md'', ls_alias = None\<rparr>,
      \<lparr>ls_file = Some \<lparr>basename = ''Plan''\<rparr>, ls_path = ''Plan.md'', ls_alias = Some ''Roadmap''\<rparr>]
   \<and> (\<exists>file. ls_file \<lparr>ls_file = Some \<lparr>basename = ''Plan''\<rparr>, ls_path = ''Plan.md'',
                         ls_alias = Some ''Roadmap''\<rparr> = Some file)"
  using indexed_suggestions_have_file
    [of "[\<lparr>ls_file = Some \<lparr>basename = ''Inbox''\<rparr>, ls_path = ''Inbox.md'', ls_alias = None\<rparr>,
          \<lparr>ls_file = None, ls_path = ''Ghost.md'', ls_alias = None\<rparr>,
          \<lparr>ls_file = Some \<lparr>basename = ''Plan''\<rparr>, ls_path = ''Plan.md'', ls_alias = Some ''Roadmap''\<rparr>]"]
  by (simp add: linkSuggestions_def)

end
